theory Spec2Isabelle
  imports
    Complex_Main
    "HOL-Library.Char_ord"
    "HOL-Library.List_Lexorder"
    "HOL-Library.Product_Lexorder"
    "HOL-Library.Multiset"
begin

section \<open>The record set\<close>

text \<open>
  The dashboard \<^verbatim>\<open>app.py\<close> reads one CSV into a data frame and derives every chart from
  it with a handful of data-frame calls. A data frame is modelled as the list of its rows,
  in row order. Only the five columns the program reads are kept.

  A date is the triple (year, month, day); the lexicographic order on triples is the
  chronological order. \<^verbatim>\<open>load_data\<close> parses \<^verbatim>\<open>dateRep\<close> with the format
  \<^verbatim>\<open>%d/%m/%Y\<close>, so no row carries a time of day. The country code may be missing in the
  CSV (pandas reads it as NaN): it is an option. Country names and dates are taken as
  present, and \<^verbatim>\<open>cases\<close> and \<^verbatim>\<open>deaths\<close> as integers, as the data model has them.
\<close>

type_synonym date = "nat \<times> nat \<times> nat"

record row =
  dateRep :: date
  countriesAndTerritories :: string
  countryterritoryCode :: "string option"
  cases :: int
  deaths :: int

type_synonym dataframe = "row list"

section \<open>Data-frame operations\<close>

text \<open>
  \<^verbatim>\<open>df.groupby(key)[col].sum()\<close> with the default \<^verbatim>\<open>sort=True\<close>: one output row per
  distinct key, in ascending key order, holding the sum of the column over the rows of
  that key.
\<close>

definition groupby_keys :: "('r \<Rightarrow> 'k::linorder) \<Rightarrow> 'r list \<Rightarrow> 'k list" where
  "groupby_keys key rows = sort (remdups (map key rows))"

definition group_sum :: "('r \<Rightarrow> 'k) \<Rightarrow> ('r \<Rightarrow> int) \<Rightarrow> 'r list \<Rightarrow> 'k \<Rightarrow> int" where
  "group_sum key col rows k = sum_list (map col (filter (\<lambda>r. key r = k) rows))"

definition groupby_sum ::
  "('r \<Rightarrow> 'k::linorder) \<Rightarrow> ('r \<Rightarrow> int) \<Rightarrow> 'r list \<Rightarrow> ('k \<times> int) list" where
  "groupby_sum key col rows = map (\<lambda>k. (k, group_sum key col rows k)) (groupby_keys key rows)"

section \<open>Time aggregator: daily cases\<close>

text \<open>
  \<^verbatim>\<open>daily_cases = data.groupby("dateRep")[["cases"]].sum().reset_index()\<close>
\<close>

definition daily_cases :: "dataframe \<Rightarrow> (date \<times> int) list" where
  "daily_cases data = groupby_sum dateRep cases data"

section \<open>Country aggregator\<close>

text \<open>
  \<^verbatim>\<open>df.drop_duplicates()\<close> keeps the first occurrence of every row and drops the later
  ones, in row order. Two missing values count as equal, as they do for \<open>None\<close>.
\<close>

fun drop_duplicates :: "'a list \<Rightarrow> 'a list" where
  "drop_duplicates [] = []"
| "drop_duplicates (x # xs) = x # drop_duplicates (filter (\<lambda>y. y \<noteq> x) xs)"

text \<open>
  \<^verbatim>\<open>left.merge(right, on=key, how="left")\<close>: the rows of \<open>left\<close> in order, each one repeated
  for every row of \<open>right\<close> with the same key (in the order of \<open>right\<close>) and extended by
  that row's value; a left row with no partner is kept once, with a missing value.
\<close>

definition merge_matches :: "'k \<Rightarrow> 'a \<Rightarrow> ('k \<times> 'b option) list \<Rightarrow> ('k \<times> 'a \<times> 'b option) list" where
  "merge_matches k a right =
     (case filter (\<lambda>p. fst p = k) right of
        [] \<Rightarrow> [(k, a, None)]
      | ms \<Rightarrow> map (\<lambda>p. (k, a, snd p)) ms)"

definition merge_left :: "('k \<times> 'a) list \<Rightarrow> ('k \<times> 'b option) list \<Rightarrow> ('k \<times> 'a \<times> 'b option) list" where
  "merge_left left right = concat (map (\<lambda>(k, a). merge_matches k a right) left)"

text \<open>
  Line 35: \<^verbatim>\<open>data.groupby("countriesAndTerritories", as_index=False)["cases"].sum()\<close>,
  the value \<^verbatim>\<open>total_cases_by_country\<close> holds before the join.
\<close>

definition total_cases_grouped :: "dataframe \<Rightarrow> (string \<times> int) list" where
  "total_cases_grouped data = groupby_sum countriesAndTerritories cases data"

text \<open>
  Line 36: \<^verbatim>\<open>data[["countriesAndTerritories", "countryterritoryCode"]].drop_duplicates()\<close>
\<close>

definition iso_mapping :: "dataframe \<Rightarrow> (string \<times> string option) list" where
  "iso_mapping data =
     drop_duplicates (map (\<lambda>r. (countriesAndTerritories r, countryterritoryCode r)) data)"

text \<open>
  Line 37: \<^verbatim>\<open>total_cases_by_country.merge(iso_mapping, on="countriesAndTerritories", how="left")\<close>,
  the Totals-by-country table that the map and the ranking read. Its columns are the
  country name, the summed cases and the country code.
\<close>

definition total_cases_by_country :: "dataframe \<Rightarrow> (string \<times> int \<times> string option) list" where
  "total_cases_by_country data = merge_left (total_cases_grouped data) (iso_mapping data)"

text \<open>
  Line 85: \<^verbatim>\<open>data.groupby("countriesAndTerritories", as_index=False)[["cases", "deaths"]].sum()\<close>
\<close>

definition cases_deaths :: "dataframe \<Rightarrow> (string \<times> int \<times> int) list" where
  "cases_deaths data =
     map (\<lambda>k. (k, group_sum countriesAndTerritories cases data k,
                   group_sum countriesAndTerritories deaths data k))
       (groupby_keys countriesAndTerritories data)"

section \<open>Ranker\<close>

text \<open>
  \<^verbatim>\<open>df.sort_values(by=col, ascending=False)\<close>. pandas reverses the rows, sorts them in
  ascending order and reverses the result. The ascending sort is modelled by the stable
  insertion sort of the library; the default sort of pandas does not promise an order
  among rows of equal key, and no theorem below depends on that order.
  \<^verbatim>\<open>df.head(n)\<close> is \<open>take n\<close>.
\<close>

definition sort_values_desc :: "('r \<Rightarrow> int) \<Rightarrow> 'r list \<Rightarrow> 'r list" where
  "sort_values_desc col rows = rev (sort_key col (rev rows))"

definition total_cases :: "string \<times> int \<times> 'c \<Rightarrow> int" where
  "total_cases t = fst (snd t)"

text \<open>
  Line 104: \<^verbatim>\<open>total_cases_by_country.sort_values(by="cases", ascending=False).head(10)\<close>
\<close>

definition top_countries :: "dataframe \<Rightarrow> (string \<times> int \<times> string option) list" where
  "top_countries data = take 10 (sort_values_desc total_cases (total_cases_by_country data))"

text \<open>
  The invariant of the data model: the country code is a function of the country name
  (a code missing on every row of a country counts as one value).
\<close>

definition single_code :: "dataframe \<Rightarrow> bool" where
  "single_code data =
     (\<forall>r \<in> set data. \<forall>r' \<in> set data.
        countriesAndTerritories r = countriesAndTerritories r'
          \<longrightarrow> countryterritoryCode r = countryterritoryCode r')"

section \<open>Time aggregator: the monthly view of one country\<close>

text \<open>
  \<^verbatim>\<open>dt.to_period("M").astype(str)\<close> prints the month of a date as \<^verbatim>\<open>YYYY-MM\<close>, with a
  four-digit year and a two-digit month.
\<close>

definition digit_char :: "nat \<Rightarrow> char" where
  "digit_char n = char_of (48 + n mod 10)"

definition year_month :: "date \<Rightarrow> string" where
  "year_month d =
     (case d of (y, m, _) \<Rightarrow>
        [digit_char (y div 1000), digit_char (y div 100), digit_char (y div 10), digit_char y,
         CHR ''-'', digit_char (m div 10), digit_char m])"

text \<open>
  \<^verbatim>\<open>df.sort_values(by=col)\<close>, ascending. As for the descending sort, the order among rows
  of equal key is that of the library's stable sort and no theorem depends on it.
\<close>

definition sort_values_asc :: "('r \<Rightarrow> 'k::linorder) \<Rightarrow> 'r list \<Rightarrow> 'r list" where
  "sort_values_asc col rows = sort_key col rows"

text \<open>
  Lines 128 to 130:
  \<^verbatim>\<open>country_cases = data[data["countriesAndTerritories"] == country].copy()\<close>,
  \<^verbatim>\<open>country_cases["year_month"] = country_cases["dateRep"].dt.to_period("M").astype(str)\<close>,
  \<^verbatim>\<open>country_cases = country_cases.sort_values(by="dateRep")\<close>.
  A row of the result is a record of the country together with its new
  \<^verbatim>\<open>year_month\<close> column.
\<close>

definition add_year_month :: "row list \<Rightarrow> (row \<times> string) list" where
  "add_year_month rows = map (\<lambda>r. (r, year_month (dateRep r))) rows"

definition country_cases :: "dataframe \<Rightarrow> string \<Rightarrow> (row \<times> string) list" where
  "country_cases data country =
     sort_values_asc (\<lambda>p. dateRep (fst p))
       (add_year_month (filter (\<lambda>r. countriesAndTerritories r = country) data))"

section \<open>Range query\<close>

text \<open>
  The two bounds come from \<^verbatim>\<open>st.date_input\<close>, which returns a \<^verbatim>\<open>datetime.date\<close>. The
  column \<^verbatim>\<open>dateRep\<close> is a \<^verbatim>\<open>datetime64\<close> column. pandas compares such a column with a
  timestamp (a \<^verbatim>\<open>datetime\<close>, \<^verbatim>\<open>Timestamp\<close> or \<^verbatim>\<open>datetime64\<close> scalar) element by element;
  a \<^verbatim>\<open>datetime.date\<close> is not among the scalars it accepts, and the order comparisons
  \<^verbatim>\<open>>=\<close> and \<^verbatim>\<open><=\<close> then raise
  \<^verbatim>\<open>TypeError: Invalid comparison between dtype=datetime64[ns] and date\<close>.
  The scalar operand is therefore modelled with its Python type. A timestamp is kept at
  midnight, which is all the program can produce.
\<close>

datatype error = TypeError

datatype scalar = PyDate date | PyTimestamp date

definition series_ge :: "date list \<Rightarrow> scalar \<Rightarrow> error + bool list" where
  "series_ge col other =
     (case other of
        PyTimestamp t \<Rightarrow> Inr (map (\<lambda>d. t \<le> d) col)
      | PyDate _ \<Rightarrow> Inl TypeError)"

definition series_le :: "date list \<Rightarrow> scalar \<Rightarrow> error + bool list" where
  "series_le col other =
     (case other of
        PyTimestamp t \<Rightarrow> Inr (map (\<lambda>d. d \<le> t) col)
      | PyDate _ \<Rightarrow> Inl TypeError)"

text \<open>\<^verbatim>\<open>a & b\<close> on two boolean columns, and \<^verbatim>\<open>df.loc[mask, col]\<close>.\<close>

definition series_and :: "bool list \<Rightarrow> bool list \<Rightarrow> bool list" where
  "series_and a b = map (\<lambda>(x, y). x \<and> y) (zip a b)"

definition loc_mask :: "bool list \<Rightarrow> 'a list \<Rightarrow> 'a list" where
  "loc_mask msk col = map snd (filter fst (zip msk col))"

text \<open>
  \<^verbatim>\<open>pd.to_datetime\<close> applied to a column that already holds parsed dates returns the
  dates as they are (line 159).
\<close>

definition to_datetime :: "date \<Rightarrow> date" where
  "to_datetime d = d"

definition reparse_dateRep :: "row list \<Rightarrow> row list" where
  "reparse_dateRep rows = map (\<lambda>r. r\<lparr>dateRep := to_datetime (dateRep r)\<rparr>) rows"

text \<open>
  \<^verbatim>\<open>Series.mean()\<close>: NaN on an empty column, otherwise the sum divided by the count. The
  floating-point result is modelled by the exact rational.
\<close>

datatype number = NaN | Value rat

definition mean :: "int list \<Rightarrow> number" where
  "mean xs = (if xs = [] then NaN else Value (of_int (sum_list xs) / of_int (int (length xs))))"

definition isnan :: "number \<Rightarrow> bool" where
  "isnan x = (case x of NaN \<Rightarrow> True | Value _ \<Rightarrow> False)"

text \<open>\<^verbatim>\<open>np.round(x, 2)\<close>: to two decimals, a tie going to the even neighbour.\<close>

definition round_half_even :: "rat \<Rightarrow> int" where
  "round_half_even x =
     (let f = \<lfloor>x\<rfloor>; d = x - of_int f
      in if d < 1 / 2 then f else if 1 / 2 < d then f + 1 else if even f then f else f + 1)"

definition np_round :: "number \<Rightarrow> number" where
  "np_round x = (case x of NaN \<Rightarrow> NaN | Value v \<Rightarrow> Value (of_int (round_half_even (v * 100)) / 100))"

text \<open>
  Lines 158 to 161: the rows of the country, the re-parsed date column, the mask of the
  window and the mean of the selected cases. Python evaluates the left comparison first,
  so its error is the one raised.
\<close>

definition period_mask :: "row list \<Rightarrow> scalar \<Rightarrow> scalar \<Rightarrow> error + bool list" where
  "period_mask rows start_period end_period =
     (case series_ge (map dateRep rows) start_period of
        Inl e \<Rightarrow> Inl e
      | Inr lower \<Rightarrow>
          (case series_le (map dateRep rows) end_period of
             Inl e \<Rightarrow> Inl e
           | Inr upper \<Rightarrow> Inr (series_and lower upper)))"

definition avg_period_country_cases :: "dataframe \<Rightarrow> string \<Rightarrow> row list" where
  "avg_period_country_cases data country =
     reparse_dateRep (filter (\<lambda>r. countriesAndTerritories r = country) data)"

definition avg_cases :: "dataframe \<Rightarrow> string \<Rightarrow> scalar \<Rightarrow> scalar \<Rightarrow> error + number" where
  "avg_cases data country start_period end_period =
     (let rows = avg_period_country_cases data country
      in case period_mask rows start_period end_period of
           Inl e \<Rightarrow> Inl e
         | Inr msk \<Rightarrow> Inr (mean (loc_mask msk (map cases rows))))"

text \<open>
  Lines 163 to 166: what the form shows after a submit, a warning or a metric.
\<close>

datatype display = Warning string | Metric string number

definition average_cases_per_country ::
  "dataframe \<Rightarrow> string \<Rightarrow> scalar \<Rightarrow> scalar \<Rightarrow> error + display" where
  "average_cases_per_country data country start_period end_period =
     (case avg_cases data country start_period end_period of
        Inl e \<Rightarrow> Inl e
      | Inr avg \<Rightarrow>
          if isnan avg then Inr (Warning ''No data available for the selected period.'')
          else Inr (Metric ''Average COVID Cases in Selected Period'' (np_round avg)))"

section \<open>The script as a program on a store of frames\<close>

text \<open>
  The monthly view and the range query assign to a column of a frame in place
  (\<^verbatim>\<open>country_cases["year_month"] = ...\<close>, \<^verbatim>\<open>avg_period_country_cases["dateRep"] = ...\<close>).
  Whether such an assignment can reach the loaded data depends on which object the frame
  is, so the frames of records live in a store: a list of frames, the address of a frame
  being its index. \<^verbatim>\<open>load_data\<close> puts the record set at address 0, where the variable
  \<^verbatim>\<open>data\<close> points for the whole session. A frame holds the records, or the records with
  the extra column \<^verbatim>\<open>year_month\<close>.
\<close>

datatype frame = Records "row list" | Labelled "(row \<times> string) list"

type_synonym store = "frame list"

fun frame_rows :: "frame \<Rightarrow> row list" where
  "frame_rows (Records rs) = rs"
| "frame_rows (Labelled ls) = map fst ls"

fun frame_filter :: "(row \<Rightarrow> bool) \<Rightarrow> frame \<Rightarrow> frame" where
  "frame_filter P (Records rs) = Records (filter P rs)"
| "frame_filter P (Labelled ls) = Labelled (filter (\<lambda>p. P (fst p)) ls)"

fun frame_sort_dateRep :: "frame \<Rightarrow> frame" where
  "frame_sort_dateRep (Records rs) = Records (sort_values_asc dateRep rs)"
| "frame_sort_dateRep (Labelled ls) = Labelled (sort_values_asc (\<lambda>p. dateRep (fst p)) ls)"

fun frame_set_year_month :: "frame \<Rightarrow> frame" where
  "frame_set_year_month (Records rs) = Labelled (add_year_month rs)"
| "frame_set_year_month (Labelled ls) = Labelled (add_year_month (map fst ls))"

fun frame_set_dateRep :: "frame \<Rightarrow> frame" where
  "frame_set_dateRep (Records rs) = Records (reparse_dateRep rs)"
| "frame_set_dateRep (Labelled ls) =
     Labelled (map (\<lambda>p. ((fst p)\<lparr>dateRep := to_datetime (dateRep (fst p))\<rparr>, snd p)) ls)"

fun frame_labelled :: "frame \<Rightarrow> (row \<times> string) list" where
  "frame_labelled (Records rs) = []"
| "frame_labelled (Labelled ls) = ls"

text \<open>
  Creating a frame appends it to the store and returns its address. \<^verbatim>\<open>df[cond]\<close> and
  \<^verbatim>\<open>df.copy()\<close> and \<^verbatim>\<open>df.sort_values(...)\<close> create a frame; \<^verbatim>\<open>df[col] = ...\<close> replaces the
  frame at the address of \<^verbatim>\<open>df\<close>. The programs below only use addresses that hold a
  frame.
\<close>

definition alloc :: "frame \<Rightarrow> store \<Rightarrow> nat \<times> store" where
  "alloc f st = (length st, st @ [f])"

definition boolean_index :: "nat \<Rightarrow> (row \<Rightarrow> bool) \<Rightarrow> store \<Rightarrow> nat \<times> store" where
  "boolean_index a P st = alloc (frame_filter P (st ! a)) st"

definition copy :: "nat \<Rightarrow> store \<Rightarrow> nat \<times> store" where
  "copy a st = alloc (st ! a) st"

definition sort_values_dateRep :: "nat \<Rightarrow> store \<Rightarrow> nat \<times> store" where
  "sort_values_dateRep a st = alloc (frame_sort_dateRep (st ! a)) st"

definition setitem_year_month :: "nat \<Rightarrow> store \<Rightarrow> store" where
  "setitem_year_month a st = st[a := frame_set_year_month (st ! a)]"

definition setitem_dateRep :: "nat \<Rightarrow> store \<Rightarrow> store" where
  "setitem_dateRep a st = st[a := frame_set_dateRep (st ! a)]"

definition load_data :: "dataframe \<Rightarrow> store" where
  "load_data csv = [Records csv]"

definition data_addr :: nat where
  "data_addr = 0"

text \<open>
  The operations a session runs, any number of times and in any order: the four
  aggregations of the page, the monthly view of a selected country, and the range query
  of a submitted form. Each returns what it hands to the page, and the store it leaves.
\<close>

datatype operation =
    CountryTotals
  | DailyCases
  | CasesVsDeaths
  | TopCountries
  | MonthlyCases string
  | AverageCases string scalar scalar

datatype view =
    TotalsView "(string \<times> int \<times> string option) list"
  | DailyView "(date \<times> int) list"
  | CasesDeathsView "(string \<times> int \<times> int) list"
  | MonthlyView "(row \<times> string) list"
  | AverageView "error + display"

definition monthly_program :: "string \<Rightarrow> store \<Rightarrow> view \<times> store" where
  "monthly_program country st =
     (let (selected, st1) =
            boolean_index data_addr (\<lambda>r. countriesAndTerritories r = country) st;
          (country_cases_addr, st2) = copy selected st1;
          st3 = setitem_year_month country_cases_addr st2;
          (sorted_addr, st4) = sort_values_dateRep country_cases_addr st3
      in (MonthlyView (frame_labelled (st4 ! sorted_addr)), st4))"

definition average_program :: "string \<Rightarrow> scalar \<Rightarrow> scalar \<Rightarrow> store \<Rightarrow> view \<times> store" where
  "average_program country start_period end_period st =
     (let (selected, st1) =
            boolean_index data_addr (\<lambda>r. countriesAndTerritories r = country) st;
          (avg_addr, st2) = copy selected st1;
          st3 = setitem_dateRep avg_addr st2;
          rows = frame_rows (st3 ! avg_addr)
      in (AverageView
            (case period_mask rows start_period end_period of
               Inl e \<Rightarrow> Inl e
             | Inr msk \<Rightarrow>
                 (let avg = mean (loc_mask msk (map cases rows))
                  in if isnan avg
                     then Inr (Warning ''No data available for the selected period.'')
                     else Inr (Metric ''Average COVID Cases in Selected Period'' (np_round avg)))),
          st3))"

fun exec :: "operation \<Rightarrow> store \<Rightarrow> view \<times> store" where
  "exec CountryTotals st = (TotalsView (total_cases_by_country (frame_rows (st ! data_addr))), st)"
| "exec DailyCases st = (DailyView (daily_cases (frame_rows (st ! data_addr))), st)"
| "exec CasesVsDeaths st = (CasesDeathsView (cases_deaths (frame_rows (st ! data_addr))), st)"
| "exec TopCountries st = (TotalsView (top_countries (frame_rows (st ! data_addr))), st)"
| "exec (MonthlyCases country) st = monthly_program country st"
| "exec (AverageCases country start_period end_period) st =
     average_program country start_period end_period st"

fun run :: "operation list \<Rightarrow> store \<Rightarrow> view list \<times> store" where
  "run [] st = ([], st)"
| "run (op # ops) st =
     (let (v, st') = exec op st; (vs, st'') = run ops st' in (v # vs, st''))"

section \<open>Sample record sets\<close>

text \<open>
  Concrete record sets on which the definitions are evaluated: the scenario of the
  specification (two countries, two days); a record set in which one country name
  carries two different codes; one in which the code of a country is missing on its
  first record only; and one whose records of a country are out of date order and span
  the turn of a year.
\<close>

definition mk_row :: "date \<Rightarrow> string \<Rightarrow> string option \<Rightarrow> int \<Rightarrow> int \<Rightarrow> row" where
  "mk_row d n c k m =
     \<lparr>dateRep = d, countriesAndTerritories = n, countryterritoryCode = c, cases = k, deaths = m\<rparr>"

definition two_codes :: dataframe where
  "two_codes =
     [mk_row (2020, 1, 1) ''A'' (Some ''X'') 1 0,
      mk_row (2020, 1, 2) ''A'' (Some ''Y'') 1 0]"

definition scenario :: dataframe where
  "scenario =
     [mk_row (2020, 1, 1) ''A'' (Some ''AAA'') 10 0,
      mk_row (2020, 1, 2) ''A'' (Some ''AAA'') 20 1,
      mk_row (2020, 1, 1) ''B'' (Some ''BBB'') 5 0]"

definition missing_code :: dataframe where
  "missing_code =
     [mk_row (2020, 1, 1) ''A'' None 1 0,
      mk_row (2020, 1, 2) ''A'' (Some ''X'') 1 0]"

definition year_end :: dataframe where
  "year_end =
     [mk_row (2021, 1, 1) ''A'' (Some ''AAA'') 4 0,
      mk_row (2020, 1, 2) ''A'' (Some ''AAA'') 2 0,
      mk_row (2020, 12, 31) ''A'' (Some ''AAA'') 3 0,
      mk_row (2020, 6, 1) ''B'' (Some ''BBB'') 9 0,
      mk_row (2020, 1, 1) ''A'' (Some ''AAA'') 1 0]"

section \<open>Reference descriptions\<close>

text \<open>
  The window of a range query as the contract describes it: the records of the country
  whose date lies between the two bounds, both included.
\<close>

definition in_window :: "string \<Rightarrow> date \<Rightarrow> date \<Rightarrow> row \<Rightarrow> bool" where
  "in_window country s e r \<longleftrightarrow> countriesAndTerritories r = country \<and> s \<le> dateRep r \<and> dateRep r \<le> e"

text \<open>
  What each operation hands to the page when it is computed from the record set itself,
  without a store.
\<close>

definition pure_view :: "dataframe \<Rightarrow> operation \<Rightarrow> view" where
  "pure_view data op =
     (case op of
        CountryTotals \<Rightarrow> TotalsView (total_cases_by_country data)
      | DailyCases \<Rightarrow> DailyView (daily_cases data)
      | CasesVsDeaths \<Rightarrow> CasesDeathsView (cases_deaths data)
      | TopCountries \<Rightarrow> TotalsView (top_countries data)
      | MonthlyCases country \<Rightarrow> MonthlyView (country_cases data country)
      | AverageCases country s e \<Rightarrow> AverageView (average_cases_per_country data country s e))"

section \<open>Properties of grouping\<close>

lemma groupby_keys_sorted: "sorted (groupby_keys key rows)"
  by (simp add: groupby_keys_def)

lemma groupby_keys_distinct: "distinct (groupby_keys key rows)"
  by (simp add: groupby_keys_def)

lemma groupby_keys_set: "set (groupby_keys key rows) = key ` set rows"
  by (simp add: groupby_keys_def)

lemma groupby_sum_keys: "map fst (groupby_sum key col rows) = groupby_keys key rows"
  by (simp add: groupby_sum_def comp_def)

lemma groupby_sum_vals:
  "map snd (groupby_sum key col rows) = map (group_sum key col rows) (groupby_keys key rows)"
  by (simp add: groupby_sum_def comp_def)

lemma sum_list_indicator_0:
  "k \<notin> set ks \<Longrightarrow> sum_list (map (\<lambda>k'. if k = k' then c else (0::int)) ks) = 0"
  by (induction ks) auto

lemma sum_list_indicator:
  "distinct ks \<Longrightarrow> k \<in> set ks \<Longrightarrow> sum_list (map (\<lambda>k'. if k = k' then c else (0::int)) ks) = c"
  by (induction ks) (auto simp: sum_list_indicator_0)

lemma group_sum_Cons:
  "group_sum key col (r # rows)
     = (\<lambda>k. (if key r = k then col r else 0) + group_sum key col rows k)"
  by (auto simp: group_sum_def)

lemma group_sum_partition:
  "distinct ks \<Longrightarrow> key ` set rows \<subseteq> set ks
   \<Longrightarrow> sum_list (map (group_sum key col rows) ks) = sum_list (map col rows)"
proof (induction rows)
  case Nil
  then show ?case by (simp add: group_sum_def)
next
  case (Cons r rows)
  then have k: "key r \<in> set ks" and sub: "key ` set rows \<subseteq> set ks" by auto
  have "sum_list (map (group_sum key col (r # rows)) ks)
        = sum_list (map (\<lambda>k. if key r = k then col r else 0) ks)
          + sum_list (map (group_sum key col rows) ks)"
    by (simp add: group_sum_Cons sum_list_addf)
  also have "\<dots> = col r + sum_list (map col rows)"
    using Cons.IH [OF Cons.prems(1) sub] sum_list_indicator [OF Cons.prems(1) k] by simp
  finally show ?case by simp
qed

lemma groupby_sum_total:
  "sum_list (map snd (groupby_sum key col rows)) = sum_list (map col rows)"
  unfolding groupby_sum_vals
  by (rule group_sum_partition) (simp_all add: groupby_keys_distinct groupby_keys_set)

lemma set_drop_duplicates: "set (drop_duplicates xs) = set xs"
  by (induction xs rule: drop_duplicates.induct) auto

lemma distinct_drop_duplicates: "distinct (drop_duplicates xs)"
  by (induction xs rule: drop_duplicates.induct) (auto simp: set_drop_duplicates)

lemma filter_drop_duplicates: "filter P (drop_duplicates xs) = drop_duplicates (filter P xs)"
proof (induction xs rule: drop_duplicates.induct)
  case 1
  then show ?case by simp
next
  case (2 x xs)
  have comm: "filter P (filter (\<lambda>y. y \<noteq> x) xs) = filter (\<lambda>y. y \<noteq> x) (filter P xs)"
    by (induction xs) auto
  show ?case
  proof (cases "P x")
    case True
    have "filter P (drop_duplicates (x # xs))
          = x # filter P (drop_duplicates (filter (\<lambda>y. y \<noteq> x) xs))"
      using True by simp
    also have "\<dots> = x # drop_duplicates (filter P (filter (\<lambda>y. y \<noteq> x) xs))"
      using 2 by simp
    also have "\<dots> = x # drop_duplicates (filter (\<lambda>y. y \<noteq> x) (filter P xs))"
      by (simp only: comm)
    also have "\<dots> = drop_duplicates (filter P (x # xs))"
      using True by simp
    finally show ?thesis .
  next
    case False
    then have "filter P (filter (\<lambda>y. y \<noteq> x) xs) = filter P xs"
      by (induction xs) auto
    with False 2 show ?thesis by simp
  qed
qed

lemma drop_duplicates_map_inj:
  "inj f \<Longrightarrow> drop_duplicates (map f xs) = map f (drop_duplicates xs)"
proof (induction xs rule: drop_duplicates.induct)
  case 1
  then show ?case by simp
next
  case (2 x xs)
  then have "filter (\<lambda>y. y \<noteq> f x) (map f xs) = map f (filter (\<lambda>y. y \<noteq> x) xs)"
    by (simp add: filter_map comp_def inj_eq)
  with 2 show ?case by simp
qed

lemma length_drop_duplicates: "length (drop_duplicates xs) = card (set xs)"
  using distinct_card [OF distinct_drop_duplicates, of xs] by (simp add: set_drop_duplicates)

section \<open>Properties of the join\<close>

lemma merge_left_Nil: "merge_left [] right = []"
  by (simp add: merge_left_def)

lemma merge_left_Cons: "merge_left ((k, a) # left) right = merge_matches k a right @ merge_left left right"
  by (simp add: merge_left_def merge_matches_def)

lemma merge_matches_fst: "t \<in> set (merge_matches k a right) \<Longrightarrow> fst t = k \<and> fst (snd t) = a"
  by (auto simp: merge_matches_def split: list.splits)

lemma filter_merge_matches_same: "filter (\<lambda>t. fst t = k) (merge_matches k a right) = merge_matches k a right"
  by (rule filter_True) (auto dest: merge_matches_fst)

lemma filter_merge_matches_other: "k' \<noteq> k \<Longrightarrow> filter (\<lambda>t. fst t = k') (merge_matches k a right) = []"
  by (auto simp: filter_empty_conv dest: merge_matches_fst)

lemma filter_merge_left_absent:
  "k \<notin> fst ` set left \<Longrightarrow> filter (\<lambda>t. fst t = k) (merge_left left right) = []"
proof (induction left)
  case Nil
  then show ?case by (simp add: merge_left_Nil)
next
  case (Cons p left)
  obtain k' a' where p: "p = (k', a')" by (cases p)
  with Cons show ?case by (simp add: merge_left_Cons filter_merge_matches_other)
qed

lemma filter_merge_left:
  "distinct (map fst left) \<Longrightarrow> (k, a) \<in> set left
   \<Longrightarrow> filter (\<lambda>t. fst t = k) (merge_left left right) = merge_matches k a right"
proof (induction left)
  case Nil
  then show ?case by simp
next
  case (Cons p left)
  obtain k' a' where p: "p = (k', a')" by (cases p)
  show ?case
  proof (cases "k' = k")
    case True
    with Cons.prems p have "a' = a" and "k \<notin> fst ` set left"
      by (auto simp: image_iff)
    with True p show ?thesis
      by (simp add: merge_left_Cons filter_merge_matches_same filter_merge_left_absent)
  next
    case False
    with Cons p show ?thesis
      by (simp add: merge_left_Cons filter_merge_matches_other)
  qed
qed

lemma merge_matches_nonempty:
  "filter (\<lambda>p. fst p = k) right \<noteq> []
   \<Longrightarrow> merge_matches k a right = map (\<lambda>p. (k, a, snd p)) (filter (\<lambda>p. fst p = k) right)"
  by (simp add: merge_matches_def split: list.splits)

lemma iso_mapping_of_country:
  "filter (\<lambda>p. fst p = n) (iso_mapping data)
   = map (Pair n) (drop_duplicates
       (map countryterritoryCode (filter (\<lambda>r. countriesAndTerritories r = n) data)))"
proof -
  have "filter (\<lambda>p. fst p = n) (iso_mapping data)
        = drop_duplicates (filter (\<lambda>p. fst p = n)
            (map (\<lambda>r. (countriesAndTerritories r, countryterritoryCode r)) data))"
    by (simp add: iso_mapping_def filter_drop_duplicates)
  also have "filter (\<lambda>p. fst p = n)
            (map (\<lambda>r. (countriesAndTerritories r, countryterritoryCode r)) data)
       = map (Pair n) (map countryterritoryCode (filter (\<lambda>r. countriesAndTerritories r = n) data))"
    by (induction data) auto
  also have "drop_duplicates (map (Pair n) (map countryterritoryCode (filter (\<lambda>r. countriesAndTerritories r = n) data)))
       = map (Pair n) (drop_duplicates (map countryterritoryCode (filter (\<lambda>r. countriesAndTerritories r = n) data)))"
    by (rule drop_duplicates_map_inj) (simp add: inj_on_def)
  finally show ?thesis .
qed

lemma total_cases_grouped_mem:
  "n \<in> countriesAndTerritories ` set data
   \<Longrightarrow> (n, group_sum countriesAndTerritories cases data n) \<in> set (total_cases_grouped data)"
  by (auto simp: total_cases_grouped_def groupby_sum_def groupby_keys_set)

lemma total_cases_grouped_distinct: "distinct (map fst (total_cases_grouped data))"
  by (simp add: total_cases_grouped_def groupby_sum_keys groupby_keys_distinct)

lemma drop_duplicates_eq_Nil: "drop_duplicates xs = [] \<longleftrightarrow> xs = []"
  by (cases xs) auto

lemma rows_of_country:
  assumes "n \<in> countriesAndTerritories ` set data"
  shows "filter (\<lambda>t. fst t = n) (total_cases_by_country data)
     = map (\<lambda>c. (n, group_sum countriesAndTerritories cases data n, c))
         (drop_duplicates
           (map countryterritoryCode (filter (\<lambda>r. countriesAndTerritories r = n) data)))"
proof -
  from assms have ne: "filter (\<lambda>r. countriesAndTerritories r = n) data \<noteq> []"
    by (auto simp: filter_empty_conv)
  then have ne': "filter (\<lambda>p. fst p = n) (iso_mapping data) \<noteq> []"
    by (simp add: iso_mapping_of_country drop_duplicates_eq_Nil)
  have "filter (\<lambda>t. fst t = n) (total_cases_by_country data)
        = merge_matches n (group_sum countriesAndTerritories cases data n) (iso_mapping data)"
    unfolding total_cases_by_country_def
    by (rule filter_merge_left [OF total_cases_grouped_distinct total_cases_grouped_mem [OF assms]])
  also have "\<dots> = map (\<lambda>p. (n, group_sum countriesAndTerritories cases data n, snd p))
                      (filter (\<lambda>p. fst p = n) (iso_mapping data))"
    by (rule merge_matches_nonempty [OF ne'])
  also have "\<dots> = map (\<lambda>c. (n, group_sum countriesAndTerritories cases data n, c))
         (drop_duplicates
           (map countryterritoryCode (filter (\<lambda>r. countriesAndTerritories r = n) data)))"
    by (simp add: iso_mapping_of_country comp_def)
  finally show ?thesis .
qed

lemma drop_duplicates_const:
  "xs \<noteq> [] \<Longrightarrow> \<forall>x \<in> set xs. x = c \<Longrightarrow> drop_duplicates xs = [c]"
proof (cases xs)
  case Nil
  then show "xs \<noteq> [] \<Longrightarrow> ?thesis" by simp
next
  case (Cons y ys)
  assume "\<forall>x \<in> set xs. x = c"
  with Cons have "y = c" and "filter (\<lambda>z. z \<noteq> y) ys = []"
    by (auto simp: filter_empty_conv)
  with Cons show ?thesis by simp
qed

lemma indicator_length_0:
  "k \<notin> set ks \<Longrightarrow> sum_list (map (\<lambda>k'. if k = k' then Suc 0 else 0) ks) = 0"
  by (induction ks) auto

lemma indicator_length:
  "distinct ks \<Longrightarrow> k \<in> set ks \<Longrightarrow> sum_list (map (\<lambda>k'. if k = k' then Suc 0 else 0) ks) = Suc 0"
  by (induction ks) (auto simp: indicator_length_0)

lemma length_partition:
  "distinct ks \<Longrightarrow> key ` set xs \<subseteq> set ks
   \<Longrightarrow> sum_list (map (\<lambda>k. length (filter (\<lambda>x. key x = k) xs)) ks) = length xs"
proof (induction xs)
  case Nil
  then show ?case by simp
next
  case (Cons x xs)
  then have k: "key x \<in> set ks" and sub: "key ` set xs \<subseteq> set ks" by auto
  have "(\<lambda>k. length (filter (\<lambda>y. key y = k) (x # xs)))
        = (\<lambda>k. (if key x = k then Suc 0 else 0) + length (filter (\<lambda>y. key y = k) xs))"
    by auto
  then have "sum_list (map (\<lambda>k. length (filter (\<lambda>y. key y = k) (x # xs))) ks)
        = sum_list (map (\<lambda>k. if key x = k then Suc 0 else 0) ks)
          + sum_list (map (\<lambda>k. length (filter (\<lambda>y. key y = k) xs)) ks)"
    by (simp add: sum_list_addf)
  also have "\<dots> = Suc (length xs)"
    using Cons.IH [OF Cons.prems(1) sub] indicator_length [OF Cons.prems(1) k] by simp
  finally show ?case by simp
qed

lemma length_merge_matches:
  "filter (\<lambda>p. fst p = k) right \<noteq> []
   \<Longrightarrow> length (merge_matches k a right) = length (filter (\<lambda>p. fst p = k) right)"
  by (simp add: merge_matches_nonempty)

lemma length_merge_left:
  "\<forall>k \<in> fst ` set left. filter (\<lambda>p. fst p = k) right \<noteq> []
   \<Longrightarrow> length (merge_left left right)
       = sum_list (map (\<lambda>k. length (filter (\<lambda>p. fst p = k) right)) (map fst left))"
proof (induction left)
  case Nil
  then show ?case by (simp add: merge_left_Nil)
next
  case (Cons p left)
  obtain k a where p: "p = (k, a)" by (cases p)
  with Cons.prems have "filter (\<lambda>p. fst p = k) right \<noteq> []" by simp
  with Cons p show ?case
    by (simp add: merge_left_Cons length_merge_matches)
qed

lemma iso_mapping_set:
  "set (iso_mapping data) = (\<lambda>r. (countriesAndTerritories r, countryterritoryCode r)) ` set data"
  by (simp add: iso_mapping_def set_drop_duplicates)

lemma total_cases_grouped_keys:
  "map fst (total_cases_grouped data) = groupby_keys countriesAndTerritories data"
  by (simp add: total_cases_grouped_def groupby_sum_keys)

lemma iso_mapping_has_partner:
  "n \<in> countriesAndTerritories ` set data \<Longrightarrow> filter (\<lambda>p. fst p = n) (iso_mapping data) \<noteq> []"
  by (force simp: filter_empty_conv iso_mapping_set)

lemma length_total_cases_by_country:
  "length (total_cases_by_country data)
   = card ((\<lambda>r. (countriesAndTerritories r, countryterritoryCode r)) ` set data)"
proof -
  have "length (total_cases_by_country data)
        = sum_list (map (\<lambda>k. length (filter (\<lambda>p. fst p = k) (iso_mapping data)))
            (groupby_keys countriesAndTerritories data))"
    unfolding total_cases_by_country_def total_cases_grouped_keys [symmetric]
    by (rule length_merge_left)
       (simp add: total_cases_grouped_keys groupby_keys_set iso_mapping_has_partner
          flip: set_map)
  also have "\<dots> = length (iso_mapping data)"
    by (rule length_partition) (auto simp: groupby_keys_distinct groupby_keys_set iso_mapping_set)
  also have "\<dots> = card ((\<lambda>r. (countriesAndTerritories r, countryterritoryCode r)) ` set data)"
    by (simp add: iso_mapping_def length_drop_duplicates)
  finally show ?thesis .
qed

lemma single_code_pairs:
  assumes "single_code data"
  shows "card ((\<lambda>r. (countriesAndTerritories r, countryterritoryCode r)) ` set data)
         = card (countriesAndTerritories ` set data)"
proof -
  let ?f = "\<lambda>r. (countriesAndTerritories r, countryterritoryCode r)"
  have inj: "inj_on fst (?f ` set data)"
  proof (rule inj_onI)
    fix p q
    assume p: "p \<in> ?f ` set data" and q: "q \<in> ?f ` set data" and e: "fst p = fst q"
    from p obtain r where r: "r \<in> set data" "p = ?f r" by (rule imageE)
    from q obtain r' where r': "r' \<in> set data" "q = ?f r'" by (rule imageE)
    from e r r' have "countriesAndTerritories r = countriesAndTerritories r'" by simp
    moreover from assms r(1) r'(1)
    have "countriesAndTerritories r = countriesAndTerritories r'
          \<longrightarrow> countryterritoryCode r = countryterritoryCode r'"
      unfolding single_code_def by blast
    ultimately show "p = q" using r r' by simp
  qed
  have "fst ` ?f ` set data = countriesAndTerritories ` set data"
    by (simp add: image_image)
  with card_image [OF inj] show ?thesis by simp
qed

lemma single_code_matches:
  assumes "single_code data" and "r \<in> set data"
  shows "filter (\<lambda>p. fst p = countriesAndTerritories r) (iso_mapping data)
         = [(countriesAndTerritories r, countryterritoryCode r)]"
proof -
  let ?n = "countriesAndTerritories r"
  let ?rs = "filter (\<lambda>r'. countriesAndTerritories r' = ?n) data"
  from assms(2) have "r \<in> set ?rs" by simp
  then have ne: "map countryterritoryCode ?rs \<noteq> []" by (cases ?rs) auto
  have "\<forall>c \<in> set (map countryterritoryCode ?rs). c = countryterritoryCode r"
  proof
    fix c assume "c \<in> set (map countryterritoryCode ?rs)"
    then obtain r' where r': "r' \<in> set data" "countriesAndTerritories r' = ?n"
        and c: "c = countryterritoryCode r'"
      by auto
    from assms r'(1)
    have "countriesAndTerritories r' = countriesAndTerritories r
          \<longrightarrow> countryterritoryCode r' = countryterritoryCode r"
      unfolding single_code_def by blast
    with r'(2) c show "c = countryterritoryCode r" by simp
  qed
  with ne have "drop_duplicates (map countryterritoryCode ?rs) = [countryterritoryCode r]"
    by (rule drop_duplicates_const)
  then show ?thesis by (simp only: iso_mapping_of_country list.map)
qed

lemma total_cases_grouped_names:
  "fst ` set (total_cases_grouped data) = countriesAndTerritories ` set data"
proof -
  have "set (map fst (total_cases_grouped data)) = set (groupby_keys countriesAndTerritories data)"
    by (simp only: total_cases_grouped_keys)
  then show ?thesis by (simp only: set_map groupby_keys_set)
qed

lemma merge_left_singletons:
  "\<forall>k \<in> fst ` set left. \<exists>p. filter (\<lambda>p. fst p = k) right = [p]
   \<Longrightarrow> map (\<lambda>t. (fst t, fst (snd t))) (merge_left left right) = left"
proof (induction left)
  case Nil
  then show ?case by (simp add: merge_left_Nil)
next
  case (Cons q left)
  obtain k a where q: "q = (k, a)" by (cases q)
  from Cons.prems have "\<exists>p. filter (\<lambda>p. fst p = k) right = [p]"
    by (simp add: q)
  then obtain p where "filter (\<lambda>p. fst p = k) right = [p]" ..
  then have m: "merge_matches k a right = [(k, a, snd p)]"
    by (simp add: merge_matches_def)
  from Cons.prems have "\<forall>k \<in> fst ` set left. \<exists>p. filter (\<lambda>p. fst p = k) right = [p]"
    by simp
  then have "map (\<lambda>t. (fst t, fst (snd t))) (merge_left left right) = left"
    by (rule Cons.IH)
  with m q show ?case by (simp add: merge_left_Cons)
qed

lemma single_code_projection:
  assumes "single_code data"
  shows "map (\<lambda>t. (fst t, fst (snd t))) (total_cases_by_country data) = total_cases_grouped data"
  unfolding total_cases_by_country_def
proof (rule merge_left_singletons, rule ballI)
  fix k assume "k \<in> fst ` set (total_cases_grouped data)"
  then have "k \<in> countriesAndTerritories ` set data"
    by (simp only: total_cases_grouped_names)
  then obtain r where r: "r \<in> set data" and k: "k = countriesAndTerritories r"
    by (rule imageE)
  have "filter (\<lambda>p. fst p = k) (iso_mapping data) = [(countriesAndTerritories r, countryterritoryCode r)]"
    unfolding k by (rule single_code_matches [OF assms r])
  then show "\<exists>p. filter (\<lambda>p. fst p = k) (iso_mapping data) = [p]" ..
qed

lemma map_total_cases:
  "map total_cases ts = map snd (map (\<lambda>t. (fst t, fst (snd t))) ts)"
  by (induction ts) (simp_all add: total_cases_def)

lemma single_code_sum:
  assumes "single_code data"
  shows "sum_list (map total_cases (total_cases_by_country data)) = sum_list (map cases data)"
proof -
  have "map total_cases (total_cases_by_country data) = map snd (total_cases_grouped data)"
    unfolding map_total_cases [of "total_cases_by_country data"]
    by (simp only: single_code_projection [OF assms])
  then have "sum_list (map total_cases (total_cases_by_country data))
             = sum_list (map snd (total_cases_grouped data))"
    by (rule arg_cong)
  also have "\<dots> = sum_list (map cases data)"
    unfolding total_cases_grouped_def by (rule groupby_sum_total)
  finally show ?thesis .
qed

lemma length_rows_of_country:
  assumes "n \<in> countriesAndTerritories ` set data"
  shows "length (filter (\<lambda>t. fst t = n) (total_cases_by_country data))
     = card (countryterritoryCode ` {r \<in> set data. countriesAndTerritories r = n})"
proof -
  have "{r \<in> set data. countriesAndTerritories r = n}
        = set (filter (\<lambda>r. countriesAndTerritories r = n) data)"
    by auto
  then show ?thesis
    by (simp add: rows_of_country [OF assms] length_drop_duplicates)
qed

lemma cases_deaths_row:
  "c \<in> set (cases_deaths data)
   \<Longrightarrow> total_cases c = group_sum countriesAndTerritories cases data (fst c)"
  by (auto simp: cases_deaths_def total_cases_def)

lemma cases_deaths_names:
  "fst ` set (cases_deaths data) = countriesAndTerritories ` set data"
proof -
  have "map fst (cases_deaths data) = groupby_keys countriesAndTerritories data"
    by (simp add: cases_deaths_def comp_def)
  then have "set (map fst (cases_deaths data)) = set (groupby_keys countriesAndTerritories data)"
    by (rule arg_cong)
  then show ?thesis by (simp only: set_map groupby_keys_set)
qed

lemma total_cases_by_country_row:
  assumes "t \<in> set (total_cases_by_country data)" and "fst t \<in> countriesAndTerritories ` set data"
  shows "total_cases t = group_sum countriesAndTerritories cases data (fst t)"
proof -
  from assms(1) have "t \<in> set (filter (\<lambda>u. fst u = fst t) (total_cases_by_country data))"
    by simp
  then have "t \<in> set (map (\<lambda>c. (fst t, group_sum countriesAndTerritories cases data (fst t), c))
         (drop_duplicates (map countryterritoryCode
            (filter (\<lambda>r. countriesAndTerritories r = fst t) data))))"
    by (simp only: rows_of_country [OF assms(2)])
  then obtain c where "t = (fst t, group_sum countriesAndTerritories cases data (fst t), c)"
    by auto
  then have "fst (snd t) = group_sum countriesAndTerritories cases data (fst t)"
    by (metis fst_conv snd_conv)
  then show ?thesis by (simp add: total_cases_def)
qed

lemma total_cases_by_country_has_row:
  assumes "n \<in> countriesAndTerritories ` set data"
  shows "n \<in> fst ` set (total_cases_by_country data)"
proof -
  from assms have "filter (\<lambda>r. countriesAndTerritories r = n) data \<noteq> []"
    by (auto simp: filter_empty_conv)
  then have "filter (\<lambda>t. fst t = n) (total_cases_by_country data) \<noteq> []"
    by (simp add: rows_of_country [OF assms] drop_duplicates_eq_Nil)
  then obtain t where "t \<in> set (total_cases_by_country data)" and "fst t = n"
    by (auto simp: filter_empty_conv)
  then show ?thesis by force
qed

section \<open>Properties of the ranking\<close>

lemma sort_values_desc_mset: "mset (sort_values_desc col rows) = mset rows"
  by (simp add: sort_values_desc_def)

lemma sort_values_desc_length: "length (sort_values_desc col rows) = length rows"
  by (simp add: sort_values_desc_def)

lemma sort_values_desc_sorted:
  "sorted_wrt (\<lambda>a b. col b \<le> col a) (sort_values_desc col rows)"
proof -
  have "sorted (map col (sort_key col (rev rows)))" by (rule sorted_sort_key)
  then have "sorted_wrt (\<lambda>a b. col a \<le> col b) (sort_key col (rev rows))"
    by (simp only: sorted_map)
  then show ?thesis
    by (simp only: sort_values_desc_def sorted_wrt_rev)
qed

lemma sorted_wrt_adjacent:
  "sorted_wrt P xs \<Longrightarrow> Suc i < length xs \<Longrightarrow> P (xs ! i) (xs ! Suc i)"
  by (simp add: sorted_wrt_iff_nth_less)

lemma top_countries_sorted:
  "sorted_wrt (\<lambda>a b. total_cases b \<le> total_cases a) (top_countries data)"
  unfolding top_countries_def by (rule sorted_wrt_take) (rule sort_values_desc_sorted)

lemma top_countries_length:
  "length (top_countries data)
   = min 10 (card ((\<lambda>r. (countriesAndTerritories r, countryterritoryCode r)) ` set data))"
  by (simp add: top_countries_def sort_values_desc_length length_total_cases_by_country min.commute)

section \<open>Properties of the monthly view\<close>

lemma add_year_month_rows: "map fst (add_year_month rows) = rows"
  by (simp add: add_year_month_def comp_def)

lemma add_year_month_mem:
  "p \<in> set (add_year_month rows) \<Longrightarrow> fst p \<in> set rows \<and> snd p = year_month (dateRep (fst p))"
  by (auto simp: add_year_month_def)

lemma country_cases_mset:
  "mset (country_cases data country)
   = mset (add_year_month (filter (\<lambda>r. countriesAndTerritories r = country) data))"
  by (simp add: country_cases_def sort_values_asc_def)

lemma country_cases_sorted:
  "sorted (map (\<lambda>p. dateRep (fst p)) (country_cases data country))"
  by (simp add: country_cases_def sort_values_asc_def)

lemma country_cases_mem:
  assumes "p \<in> set (country_cases data country)"
  shows "countriesAndTerritories (fst p) = country \<and> snd p = year_month (dateRep (fst p))"
proof -
  from assms have "p \<in># mset (country_cases data country)" by simp
  then have "p \<in> set (add_year_month (filter (\<lambda>r. countriesAndTerritories r = country) data))"
    by (simp only: country_cases_mset set_mset_mset)
  from add_year_month_mem [OF this] show ?thesis by simp
qed

section \<open>Properties of the range query\<close>

lemma series_and_map: "series_and (map P xs) (map Q xs) = map (\<lambda>x. P x \<and> Q x) xs"
  by (induction xs) (simp_all add: series_and_def)

lemma loc_mask_map: "loc_mask (map P xs) (map f xs) = map f (filter P xs)"
  by (induction xs) (simp_all add: loc_mask_def)

lemma reparse_dateRep_id: "reparse_dateRep rows = rows"
  by (induction rows) (simp_all add: reparse_dateRep_def to_datetime_def)

lemma period_mask_timestamps:
  "period_mask rows (PyTimestamp s) (PyTimestamp e)
   = Inr (map (\<lambda>r. s \<le> dateRep r \<and> dateRep r \<le> e) rows)"
proof -
  have "series_and (map (\<lambda>d. s \<le> d) (map dateRep rows)) (map (\<lambda>d. d \<le> e) (map dateRep rows))
        = map (\<lambda>r. s \<le> dateRep r \<and> dateRep r \<le> e) rows"
    by (simp only: map_map comp_def series_and_map)
  then show ?thesis by (simp add: period_mask_def series_ge_def series_le_def)
qed

lemma period_mask_date: "period_mask rows (PyDate s) end_period = Inl TypeError"
  by (simp add: period_mask_def series_ge_def)

lemma avg_cases_timestamps:
  "avg_cases data country (PyTimestamp s) (PyTimestamp e)
   = Inr (mean (map cases (filter (in_window country s e) data)))"
proof -
  let ?rows = "filter (\<lambda>r. countriesAndTerritories r = country) data"
  have "loc_mask (map (\<lambda>r. s \<le> dateRep r \<and> dateRep r \<le> e) ?rows) (map cases ?rows)
        = map cases (filter (\<lambda>r. s \<le> dateRep r \<and> dateRep r \<le> e) ?rows)"
    by (rule loc_mask_map)
  also have "filter (\<lambda>r. s \<le> dateRep r \<and> dateRep r \<le> e) ?rows = filter (in_window country s e) data"
    unfolding filter_filter by (rule filter_cong) (auto simp: in_window_def)
  finally show ?thesis
    by (simp add: avg_cases_def avg_period_country_cases_def reparse_dateRep_id
        period_mask_timestamps)
qed

lemma avg_cases_date: "avg_cases data country (PyDate s) end_period = Inl TypeError"
  by (simp add: avg_cases_def period_mask_date)

lemma average_on_timestamps:
  "average_cases_per_country data country (PyTimestamp s) (PyTimestamp e)
   = (let xs = map cases (filter (in_window country s e) data)
      in if xs = [] then Inr (Warning ''No data available for the selected period.'')
         else Inr (Metric ''Average COVID Cases in Selected Period''
                (np_round (Value (of_int (sum_list xs) / of_int (int (length xs)))))))"
  by (simp add: average_cases_per_country_def avg_cases_timestamps mean_def isnan_def Let_def)

section \<open>Properties of the store\<close>

lemma monthly_program_store:
  assumes "st \<noteq> []"
  shows "snd (monthly_program country st) \<noteq> []
     \<and> snd (monthly_program country st) ! data_addr = st ! data_addr"
  using assms
  by (simp add: monthly_program_def boolean_index_def copy_def alloc_def
      setitem_year_month_def sort_values_dateRep_def data_addr_def nth_append)

lemma average_program_store:
  assumes "st \<noteq> []"
  shows "snd (average_program country s e st) \<noteq> []
     \<and> snd (average_program country s e st) ! data_addr = st ! data_addr"
  using assms
  by (simp add: average_program_def boolean_index_def copy_def alloc_def
      setitem_dateRep_def data_addr_def nth_append Let_def)

lemma exec_store:
  assumes "st \<noteq> []"
  shows "snd (exec op st) \<noteq> [] \<and> snd (exec op st) ! data_addr = st ! data_addr"
  using assms monthly_program_store average_program_store
  by (cases op) simp_all

lemma monthly_program_view:
  assumes "st \<noteq> []" and "st ! data_addr = Records data"
  shows "fst (monthly_program country st) = MonthlyView (country_cases data country)"
  using assms
  by (simp add: monthly_program_def boolean_index_def copy_def alloc_def
      setitem_year_month_def sort_values_dateRep_def data_addr_def nth_append
      country_cases_def)

lemma average_program_view:
  assumes "st \<noteq> []" and "st ! data_addr = Records data"
  shows "fst (average_program country s e st)
         = AverageView (average_cases_per_country data country s e)"
  using assms
  by (simp add: average_program_def boolean_index_def copy_def alloc_def
      setitem_dateRep_def data_addr_def nth_append Let_def
      average_cases_per_country_def avg_cases_def avg_period_country_cases_def
      split: sum.splits)

lemma exec_view:
  assumes "st \<noteq> []" and "st ! data_addr = Records data"
  shows "fst (exec op st) = pure_view data op"
  using assms monthly_program_view average_program_view
  by (cases op) (simp_all add: pure_view_def)

lemma run_store:
  "st \<noteq> [] \<Longrightarrow> st ! data_addr = Records data
   \<Longrightarrow> snd (run ops st) ! data_addr = Records data \<and> fst (run ops st) = map (pure_view data) ops"
proof (induction ops arbitrary: st)
  case Nil
  then show ?case by simp
next
  case (Cons op ops)
  let ?st' = "snd (exec op st)"
  from exec_store [OF Cons.prems(1), of op] Cons.prems(2)
  have ne: "?st' \<noteq> []" and d: "?st' ! data_addr = Records data" by simp_all
  from Cons.IH [OF ne d] exec_view [OF Cons.prems, of op]
  show ?case by (simp add: case_prod_beta)
qed

lemma setitem_on_data_changes_it:
  "setitem_year_month data_addr (load_data csv) ! data_addr = Labelled (add_year_month csv)"
  by (simp add: setitem_year_month_def load_data_def data_addr_def)

section \<open>Evaluation on the sample record sets\<close>

lemmas eval_defs = mk_row_def total_cases_by_country_def total_cases_grouped_def
  iso_mapping_def merge_left_def merge_matches_def groupby_sum_def groupby_keys_def
  group_sum_def total_cases_def top_countries_def sort_values_desc_def daily_cases_def
  cases_deaths_def single_code_def

lemma two_codes_totals:
  "total_cases_by_country two_codes = [(''A'', 2, Some ''X''), (''A'', 2, Some ''Y'')]"
  by (simp add: two_codes_def eval_defs)

lemma scenario_totals:
  "total_cases_by_country scenario = [(''A'', 30, Some ''AAA''), (''B'', 5, Some ''BBB'')]"
  by (simp add: scenario_def eval_defs)

lemma scenario_single: "single_code scenario"
  by (simp add: scenario_def eval_defs)

lemma scenario_top: "top_countries scenario = [(''A'', 30, Some ''AAA''), (''B'', 5, Some ''BBB'')]"
  by (simp add: top_countries_def scenario_totals sort_values_desc_def total_cases_def)

lemma scenario_cases_deaths: "cases_deaths scenario = [(''A'', 30, 1), (''B'', 5, 0)]"
  by (simp add: scenario_def eval_defs)

lemma year_end_monthly:
  "map (\<lambda>p. (dateRep (fst p), snd p)) (country_cases year_end ''A'')
   = [((2020, 1, 1), ''2020-01''), ((2020, 1, 2), ''2020-01''),
      ((2020, 12, 31), ''2020-12''), ((2021, 1, 1), ''2021-01'')]"
  by code_simp

section \<open>The claims\<close>

text \<open>
  C1 (as amended). For every record set, the per-country sums computed by the grouping
  of line 35 add up to the sum of \<^verbatim>\<open>cases\<close> over the raw records, and so do the
  per-date sums of the Daily projection. The Totals-by-country table of line 37 (after the
  join with the code lookup) adds up to the same number whenever every country name
  carries a single code value; the join repeats a country's row once per distinct code, so
  without that condition the sum over the joined table can exceed the raw sum.
\<close>

theorem aggregation_paths_agree:
  "sum_list (map snd (total_cases_grouped data)) = sum_list (map cases data)
   \<and> sum_list (map snd (daily_cases data)) = sum_list (map cases data)
   \<and> (single_code data \<longrightarrow>
        sum_list (map total_cases (total_cases_by_country data)) = sum_list (map cases data))"
  by (simp add: total_cases_grouped_def daily_cases_def groupby_sum_total single_code_sum)

theorem aggregation_paths_agree_witness:
  "single_code scenario
   \<and> sum_list (map total_cases (total_cases_by_country scenario)) = 35
   \<and> sum_list (map snd (daily_cases scenario)) = 35
   \<and> sum_list (map cases scenario) = 35"
proof -
  have s: "sum_list (map cases scenario) = 35" by (simp add: scenario_def mk_row_def)
  from aggregation_paths_agree [of scenario] scenario_single s show ?thesis by simp
qed

text \<open>
  The claim as stated fails on a record set in which country A appears with the codes X
  and Y: the joined table has two rows for A, each with the total 2, so its sum is 4,
  while the raw records sum to 2.
\<close>

theorem totals_sum_counterexample:
  "sum_list (map total_cases (total_cases_by_country two_codes)) = 4
   \<and> sum_list (map cases two_codes) = 2
   \<and> sum_list (map total_cases (total_cases_by_country two_codes))
       \<noteq> sum_list (map cases two_codes)"
  by (simp add: two_codes_totals) (simp add: two_codes_def eval_defs)

text \<open>
  C3 (as amended). For every record set, \<^verbatim>\<open>top_countries\<close> is the first 10 rows of a
  rearrangement of the Totals-by-country table that is in descending order of total cases;
  every adjacent pair of its rows is non-increasing in total cases; and its length is
  min(10, number of distinct (country name, country code) pairs of the record set), which
  is min(10, number of distinct country names) whenever every country name carries a
  single code value.
\<close>

theorem top_countries_ranked:
  "top_countries data = take 10 (sort_values_desc total_cases (total_cases_by_country data))
   \<and> mset (sort_values_desc total_cases (total_cases_by_country data))
       = mset (total_cases_by_country data)
   \<and> sorted_wrt (\<lambda>a b. total_cases b \<le> total_cases a)
        (sort_values_desc total_cases (total_cases_by_country data))
   \<and> (\<forall>i. Suc i < length (top_countries data)
          \<longrightarrow> total_cases (top_countries data ! Suc i) \<le> total_cases (top_countries data ! i))
   \<and> length (top_countries data)
       = min 10 (card ((\<lambda>r. (countriesAndTerritories r, countryterritoryCode r)) ` set data))
   \<and> (single_code data
        \<longrightarrow> length (top_countries data) = min 10 (card (countriesAndTerritories ` set data)))"
proof (intro conjI allI impI)
  show "top_countries data = take 10 (sort_values_desc total_cases (total_cases_by_country data))"
    by (rule top_countries_def)
  show "mset (sort_values_desc total_cases (total_cases_by_country data))
       = mset (total_cases_by_country data)"
    by (rule sort_values_desc_mset)
  show "sorted_wrt (\<lambda>a b. total_cases b \<le> total_cases a)
        (sort_values_desc total_cases (total_cases_by_country data))"
    by (rule sort_values_desc_sorted)
  show "total_cases (top_countries data ! Suc i) \<le> total_cases (top_countries data ! i)"
    if "Suc i < length (top_countries data)" for i
    using top_countries_sorted that by (rule sorted_wrt_adjacent)
  show "length (top_countries data)
       = min 10 (card ((\<lambda>r. (countriesAndTerritories r, countryterritoryCode r)) ` set data))"
    by (rule top_countries_length)
  show "length (top_countries data) = min 10 (card (countriesAndTerritories ` set data))"
    if "single_code data"
    using top_countries_length [of data] single_code_pairs [OF that] by simp
qed

theorem top_countries_ranked_witness:
  "single_code scenario
   \<and> length (top_countries scenario) = min 10 (card (countriesAndTerritories ` set scenario))
   \<and> top_countries scenario = [(''A'', 30, Some ''AAA''), (''B'', 5, Some ''BBB'')]"
  using top_countries_ranked [of scenario] scenario_single scenario_top by blast

text \<open>
  The length stated in the claim fails on the record set in which country A appears with
  two codes: there is one distinct country name, and the ranking has two rows.
\<close>

theorem top_countries_length_counterexample:
  "length (top_countries two_codes) = 2
   \<and> min 10 (card (countriesAndTerritories ` set two_codes)) = 1
   \<and> length (top_countries two_codes)
       \<noteq> min 10 (card (countriesAndTerritories ` set two_codes))"
  by (simp add: two_codes_def eval_defs)

text \<open>
  C4 (as amended). For every record set and every country name occurring in it, the
  Totals-by-country table holds, for that country, one row per distinct code value found
  among the country's records (a missing code counting as one value), in the order in
  which these values are first seen, each row carrying the country's total. So the
  country has exactly one row precisely when all its records carry the same code value,
  and its first row always carries the code of its first record.
\<close>

theorem country_rows_per_code:
  assumes "n \<in> countriesAndTerritories ` set data"
  shows "filter (\<lambda>t. fst t = n) (total_cases_by_country data)
     = map (\<lambda>c. (n, group_sum countriesAndTerritories cases data n, c))
         (drop_duplicates
           (map countryterritoryCode (filter (\<lambda>r. countriesAndTerritories r = n) data)))
   \<and> length (filter (\<lambda>t. fst t = n) (total_cases_by_country data))
     = card (countryterritoryCode ` {r \<in> set data. countriesAndTerritories r = n})"
  using rows_of_country [OF assms] length_rows_of_country [OF assms] by (rule conjI)

theorem country_rows_per_code_witness:
  "''A'' \<in> countriesAndTerritories ` set two_codes
   \<and> filter (\<lambda>t. fst t = ''A'') (total_cases_by_country two_codes)
       = [(''A'', 2, Some ''X''), (''A'', 2, Some ''Y'')]"
proof -
  have m: "''A'' \<in> countriesAndTerritories ` set two_codes"
    by (simp add: two_codes_def mk_row_def)
  from country_rows_per_code [OF m] have "filter (\<lambda>t. fst t = ''A'') (total_cases_by_country two_codes)
     = map (\<lambda>c. (''A'', group_sum countriesAndTerritories cases two_codes ''A'', c))
         (drop_duplicates
           (map countryterritoryCode (filter (\<lambda>r. countriesAndTerritories r = ''A'') two_codes)))"
    by (rule conjunct1)
  also have "\<dots> = [(''A'', 2, Some ''X''), (''A'', 2, Some ''Y'')]"
    by (simp add: two_codes_def mk_row_def group_sum_def)
  finally show ?thesis using m by simp
qed

text \<open>
  The claim as stated (exactly one row for such a country) fails both when the country
  carries two different codes and when its code is missing on one record only: the table
  then has two rows for the country.
\<close>

theorem country_rows_counterexample:
  "map countryterritoryCode (filter (\<lambda>r. countriesAndTerritories r = ''A'') two_codes)
     = [Some ''X'', Some ''Y'']
   \<and> length (filter (\<lambda>t. fst t = ''A'') (total_cases_by_country two_codes)) = 2
   \<and> length (filter (\<lambda>t. fst t = ''A'') (total_cases_by_country missing_code)) = 2"
  by (simp add: two_codes_def missing_code_def eval_defs)

text \<open>
  C7. The Daily projection has exactly one row per distinct date of the record set (its
  date column is duplicate-free and covers exactly the dates that occur), the rows are in
  ascending date order, and each row's total is the sum of \<^verbatim>\<open>cases\<close> over all records of
  that date, whatever their country.
\<close>

theorem daily_cases_one_row_per_date_ascending:
  "distinct (map fst (daily_cases data))
   \<and> set (map fst (daily_cases data)) = dateRep ` set data
   \<and> sorted (map fst (daily_cases data))
   \<and> map snd (daily_cases data)
       = map (\<lambda>d. sum_list (map cases (filter (\<lambda>r. dateRep r = d) data)))
           (map fst (daily_cases data))"
  unfolding daily_cases_def groupby_sum_keys groupby_sum_vals
  by (simp add: groupby_keys_sorted groupby_keys_distinct groupby_keys_set group_sum_def)

text \<open>
  C9. For every record set and every country name occurring in it, the Cases-vs-deaths
  table and the Totals-by-country table each have a row for that country, and whichever
  rows of the two tables are taken for that country, their total cases are equal.
\<close>

theorem cases_deaths_agrees_with_totals:
  assumes "n \<in> countriesAndTerritories ` set data"
  shows "n \<in> fst ` set (cases_deaths data)
   \<and> n \<in> fst ` set (total_cases_by_country data)
   \<and> (\<forall>c \<in> set (cases_deaths data). \<forall>t \<in> set (total_cases_by_country data).
         fst c = n \<longrightarrow> fst t = n \<longrightarrow> total_cases c = total_cases t)"
proof (intro conjI ballI impI)
  show "n \<in> fst ` set (cases_deaths data)"
    using assms by (simp only: cases_deaths_names)
  show "n \<in> fst ` set (total_cases_by_country data)"
    using assms by (rule total_cases_by_country_has_row)
next
  fix c t
  assume c: "c \<in> set (cases_deaths data)" and t: "t \<in> set (total_cases_by_country data)"
    and cn: "fst c = n" and tn: "fst t = n"
  from assms tn have "fst t \<in> countriesAndTerritories ` set data" by simp
  from total_cases_by_country_row [OF t this] cases_deaths_row [OF c] cn tn
  show "total_cases c = total_cases t" by simp
qed

theorem cases_deaths_agrees_with_totals_witness:
  "''A'' \<in> countriesAndTerritories ` set scenario
   \<and> (''A'', 30, 1) \<in> set (cases_deaths scenario)
   \<and> (''A'', 30, Some ''AAA'') \<in> set (total_cases_by_country scenario)
   \<and> total_cases (''A'', 30 :: int, 1 :: int) = total_cases (''A'', 30 :: int, Some ''AAA'')"
proof -
  have m: "''A'' \<in> countriesAndTerritories ` set scenario"
    by (simp add: scenario_def mk_row_def)
  have c: "(''A'', 30, 1) \<in> set (cases_deaths scenario)"
    by (simp add: scenario_cases_deaths)
  have t: "(''A'', 30, Some ''AAA'') \<in> set (total_cases_by_country scenario)"
    by (simp add: scenario_totals)
  from cases_deaths_agrees_with_totals [OF m] c t
  have "total_cases (''A'', 30 :: int, 1 :: int) = total_cases (''A'', 30 :: int, Some ''AAA'')"
    by fastforce
  with m c t show ?thesis by simp
qed

text \<open>
  C8. For every record set and every selected country, the rows handed to the monthly
  view are in ascending order of their full date \<^verbatim>\<open>dateRep\<close>, the date before it is
  truncated to a month; they are exactly the records of that country, each with the
  \<^verbatim>\<open>year_month\<close> label of its own date. The sort key is the date and not the label: two
  records of one month come out in day order.
\<close>

theorem country_cases_chronological:
  "sorted (map (\<lambda>p. dateRep (fst p)) (country_cases data country))
   \<and> mset (country_cases data country)
       = mset (add_year_month (filter (\<lambda>r. countriesAndTerritories r = country) data))
   \<and> (\<forall>p \<in> set (country_cases data country).
         countriesAndTerritories (fst p) = country \<and> snd p = year_month (dateRep (fst p)))"
  using country_cases_sorted country_cases_mset country_cases_mem by blast

theorem country_cases_chronological_witness:
  "map (\<lambda>p. (dateRep (fst p), snd p)) (country_cases year_end ''A'')
   = [((2020, 1, 1), ''2020-01''), ((2020, 1, 2), ''2020-01''),
      ((2020, 12, 31), ''2020-12''), ((2021, 1, 1), ''2021-01'')]
   \<and> sorted (map (\<lambda>p. dateRep (fst p)) (country_cases year_end ''A''))"
  using country_cases_chronological [of year_end "''A''"] year_end_monthly by blast

text \<open>
  C2. The claim describes what the query is written to do: the warning on an empty window,
  the mean otherwise (lemma \<open>average_on_timestamps\<close> shows the code does so when the bounds
  are timestamps). With the bounds the form supplies, two \<^verbatim>\<open>datetime.date\<close> values, the
  comparison of line 160 raises \<^verbatim>\<open>TypeError\<close> for every record set, country and window,
  so the query yields neither the warning nor a mean.
\<close>

theorem average_cases_date_bounds_raise:
  "average_cases_per_country data country (PyDate s) (PyDate e) = Inl TypeError"
  by (simp add: average_cases_per_country_def avg_cases_date)

text \<open>
  C5. On the scenario of the specification, the query for country A with start and end
  both 2020-01-01 raises \<^verbatim>\<open>TypeError\<close> at the comparison of line 160, where the claim
  expects the mean 10 of the one record of A on that day.
\<close>

theorem single_day_query_raises:
  "avg_cases scenario ''A'' (PyDate (2020, 1, 1)) (PyDate (2020, 1, 1)) = Inl TypeError
   \<and> mean (map cases (filter (\<lambda>r. countriesAndTerritories r = ''A'' \<and> dateRep r = (2020, 1, 1))
        scenario)) = Value 10"
  by (simp add: avg_cases_date) (simp add: scenario_def mk_row_def mean_def)

text \<open>
  C6. On the scenario of the specification, the query for country A with the reversed
  bounds 2020-01-02 and 2020-01-01 raises \<^verbatim>\<open>TypeError\<close> at the comparison of line 160
  and does not reach the warning; with timestamp bounds the same reversed window selects
  no row and gives the warning.
\<close>

theorem reversed_bounds_query_raises:
  "(2020, 1, 1) < ((2020, 1, 2) :: date)
   \<and> average_cases_per_country scenario ''A'' (PyDate (2020, 1, 2)) (PyDate (2020, 1, 1))
       = Inl TypeError
   \<and> average_cases_per_country scenario ''A'' (PyTimestamp (2020, 1, 2)) (PyTimestamp (2020, 1, 1))
       = Inr (Warning ''No data available for the selected period.'')"
proof -
  have "filter (in_window ''A'' (2020, 1, 2) (2020, 1, 1)) scenario = []"
    by (simp add: in_window_def scenario_def mk_row_def)
  then have "average_cases_per_country scenario ''A'' (PyTimestamp (2020, 1, 2))
          (PyTimestamp (2020, 1, 1))
        = Inr (Warning ''No data available for the selected period.'')"
    by (simp add: average_on_timestamps)
  moreover have "average_cases_per_country scenario ''A'' (PyDate (2020, 1, 2)) (PyDate (2020, 1, 1))
       = Inl TypeError"
    by (simp add: average_cases_per_country_def avg_cases_date)
  moreover have "(2020, 1, 1) < ((2020, 1, 2) :: date)" by simp
  ultimately show ?thesis by blast
qed

text \<open>
  C10. After any sequence of operations run on the loaded data, the frame at the address
  of \<^verbatim>\<open>data\<close> is the record set the loader produced, and every operation of the
  sequence has returned what it returns on that record set. The monthly view and the
  range query assign their column on the copy they made, a frame at a fresh address.
\<close>

theorem base_data_never_mutated:
  "snd (run ops (load_data csv)) ! data_addr = Records csv
   \<and> fst (run ops (load_data csv)) = map (pure_view csv) ops"
  by (rule run_store) (simp_all add: load_data_def data_addr_def)

end
